theory Spec2Isabelle
  imports Main "HOL-Library.Word"
begin

unbundle bit_operations_syntax

section \<open>Machine types\<close>

type_synonym u8 = "8 word"
type_synonym u16 = "16 word"
type_synonym u32 = "32 word"
type_synonym u64 = "64 word"

section \<open>LinkedBlockingQueue.hpp\<close>

text \<open>
  The queue under protection is a \<open>std::queue\<close>: a sequence with its head first. Every
  member function takes the mutex for its whole body, so each call is one atomic step on
  the sequence; the mutex and the condition variable carry no data of their own.
\<close>

type_synonym 'a LinkedBlockingQueue = "'a list"

definition isEmpty :: "'a LinkedBlockingQueue \<Rightarrow> bool" where
  "isEmpty q = (case q of [] \<Rightarrow> True | _ # _ \<Rightarrow> False)"

definition getCount :: "'a LinkedBlockingQueue \<Rightarrow> nat" where
  "getCount q = length q"

text \<open>\<open>offer\<close>: push at the tail (the notification wakes waiters, it changes no data).\<close>

definition offer :: "'a \<Rightarrow> 'a LinkedBlockingQueue \<Rightarrow> 'a LinkedBlockingQueue" where
  "offer element q = q @ [element]"

text \<open>
  \<open>poll\<close>: the wait returns only once the predicate \<open>!queue.empty()\<close> holds; then the
  front is moved out and popped. \<open>None\<close> is the caller still blocked in the wait, with the
  queue as it was.
\<close>

definition poll :: "'a LinkedBlockingQueue \<Rightarrow> ('a \<times> 'a LinkedBlockingQueue) option" where
  "poll q = (case q of [] \<Rightarrow> None | element # rest \<Rightarrow> Some (element, rest))"

text \<open>
  \<open>wait_for(lock, timeout, predicate)\<close> of the standard library is
  \<open>while (!pred()) if (wait_until(lock, deadline) == timeout) return pred(); return true;\<close>.
  While the waiter sleeps the mutex is free, so other threads may offer elements. The
  second argument lists what arrives during each sleep that ends before the deadline;
  when it is used up the deadline has passed and the predicate is read one last time.
\<close>

fun wait_for :: "'a LinkedBlockingQueue \<Rightarrow> 'a list list \<Rightarrow> bool \<times> 'a LinkedBlockingQueue" where
  "wait_for q [] = (\<not> isEmpty q, q)"
| "wait_for q (arrived # later) =
     (if \<not> isEmpty q then (True, q) else wait_for (q @ arrived) later)"

definition pollWithTimeout ::
  "'a list list \<Rightarrow> 'a LinkedBlockingQueue \<Rightarrow> 'a option \<times> 'a LinkedBlockingQueue" where
  "pollWithTimeout arrivals q =
     (case wait_for q arrivals of
        (True, q') \<Rightarrow> (case q' of element # rest \<Rightarrow> (Some element, rest) | [] \<Rightarrow> (None, q'))
      | (False, q') \<Rightarrow> (None, q'))"

text \<open>
  A schedule of completed queue calls, in the order in which they held the mutex. The
  pair is the queue and what the consumer has been handed so far. A \<open>Poll\<close> scheduled on
  an empty queue stays blocked and hands nothing over.
\<close>

datatype 'a queue_call = Offer 'a | Poll

fun run_calls :: "'a queue_call list \<Rightarrow> 'a LinkedBlockingQueue \<times> 'a list \<Rightarrow>
    'a LinkedBlockingQueue \<times> 'a list" where
  "run_calls [] s = s"
| "run_calls (Offer x # cs) (q, got) = run_calls cs (offer x q, got)"
| "run_calls (Poll # cs) (q, got) =
     (case poll q of
        None \<Rightarrow> run_calls cs (q, got)
      | Some (x, q') \<Rightarrow> run_calls cs (q', got @ [x]))"

fun offered :: "'a queue_call list \<Rightarrow> 'a list" where
  "offered [] = []"
| "offered (Offer x # cs) = x # offered cs"
| "offered (Poll # cs) = offered cs"

text \<open>\<open>n\<close> successive calls of \<open>poll\<close> by the consumer, stopping where it blocks.\<close>

fun poll_times :: "nat \<Rightarrow> 'a LinkedBlockingQueue \<Rightarrow> 'a list \<times> 'a LinkedBlockingQueue" where
  "poll_times 0 q = ([], q)"
| "poll_times (Suc n) q =
     (case poll q of
        None \<Rightarrow> ([], q)
      | Some (x, q') \<Rightarrow> (case poll_times n q' of (xs, q'') \<Rightarrow> (x # xs, q'')))"

section \<open>Experiments.hpp\<close>

record Result =
  durations :: "u64 list"

text \<open>
  \<open>std::min_element\<close> keeps the first smallest element and \<open>std::max_element\<close> the first
  largest one; on an empty range both return the end iterator, and the accessor
  dereferences it: undefined behaviour, \<open>None\<close> here.
\<close>

fun min_element :: "u64 \<Rightarrow> u64 list \<Rightarrow> u64" where
  "min_element smallest [] = smallest"
| "min_element smallest (x # xs) = min_element (if x < smallest then x else smallest) xs"

fun max_element :: "u64 \<Rightarrow> u64 list \<Rightarrow> u64" where
  "max_element largest [] = largest"
| "max_element largest (x # xs) = max_element (if largest < x then x else largest) xs"

definition min_time :: "Result \<Rightarrow> u64 option" where
  "min_time r = (case durations r of [] \<Rightarrow> None | x # xs \<Rightarrow> Some (min_element x xs))"

definition max_time :: "Result \<Rightarrow> u64 option" where
  "max_time r = (case durations r of [] \<Rightarrow> None | x # xs \<Rightarrow> Some (max_element x xs))"

text \<open>
  \<open>medium\<close>: sort a copy and read index \<open>size / 2\<close>, which is out of range exactly when the
  vector is empty.
\<close>

definition medium :: "Result \<Rightarrow> u64 option" where
  "medium r =
     (let tmp = sort (durations r); i = length (durations r) div 2
      in if i < length tmp then Some (tmp ! i) else None)"

section \<open>Debug.hpp\<close>

text \<open>
  What the process prints is kept as a list of lines, one per call of a printing macro or
  function: the channel, the format string (without its line breaks) and the arguments.
  \<open>perr\<close> and \<open>pinfo\<close> print only in a build with \<open>DEBUG\<close> defined and expand to nothing
  otherwise; \<open>pwarning\<close> and \<open>psoftassert\<close> print in every build. None of the four ends the
  process. \<open>passert\<close> prints and then calls \<open>abort()\<close>: where it fails the model returns
  \<open>Inl (Abort msg)\<close>.
\<close>

datatype SocketIndex = kMonitor | kActuator | kGateway

text \<open>
  Modelled from the spec: \<open>Message.hpp\<close> is not among the sources. The type tags are the
  ones the controller names, with the two outbound tags of the spec's table; \<open>kUnlisted\<close>
  stands for every other value the tag field of a received record can hold.
\<close>

datatype MessageType =
    kMoistureUserStack | kActuatorUserStack | kGateWayUserStack
  | kSoilDryAlert | kSoilWetAlert | kAckSoilWet | kRunOutOfWaterAlert
  | kChangeSoilMoisture | kChangeWaterStatus
  | kUnlisted nat

datatype arg = S string | X u32 | T MessageType | N nat | B "u8 list" | D "u64 list"

datatype channel = DInfo | Error | Warning | AssertionFailed | Printed | Status

datatype line = Line channel string "arg list"

text \<open>
  How a call can fail: \<open>Abort\<close> is \<open>abort()\<close> after a failed \<open>passert\<close>, ending the whole
  process; \<open>EmptyOptional\<close> is \<open>operator->\<close> on an empty \<open>std::optional\<close> and \<open>OutOfRange\<close> a
  read or write outside an array or vector (both undefined behaviour); \<open>Uncaught\<close> is an
  exception nobody catches; \<open>Sigpipe\<close> is the signal a write on a connection closed by
  the peer raises, which ends the process since nothing changes its disposition;
  \<open>Terminate\<close> is \<open>std::terminate\<close>, called when a joinable \<open>std::thread\<close> is destroyed.
\<close>

datatype error =
    Abort string
  | EmptyOptional SocketIndex
  | OutOfRange
  | Uncaught string
  | Sigpipe
  | Terminate

definition and_then :: "error + 'a \<Rightarrow> ('a \<Rightarrow> error + 'b) \<Rightarrow> error + 'b" where
  "and_then r f = (case r of Inl e \<Rightarrow> Inl e | Inr x \<Rightarrow> f x)"

definition pinfo :: "bool \<Rightarrow> string \<Rightarrow> arg list \<Rightarrow> line list" where
  "pinfo debug fmt args = (if debug then [Line DInfo fmt args] else [])"

definition perr :: "bool \<Rightarrow> string \<Rightarrow> arg list \<Rightarrow> line list" where
  "perr debug fmt args = (if debug then [Line Error fmt args] else [])"

definition pwarning :: "string \<Rightarrow> arg list \<Rightarrow> line list" where
  "pwarning fmt args = [Line Warning fmt args]"


section \<open>StreamSocket.hpp\<close>

text \<open>
  \<open>StreamSocket::send\<close> calls \<open>::send\<close> with flags 0 and compares what it returns with
  the length. \<open>::send\<close> either returns (the number of bytes taken, or \<open>-1\<close>) or, on a
  connection the peer has closed, raises \<open>SIGPIPE\<close>; no source file ignores or handles
  that signal, so it ends the process and \<open>send\<close> does not return.
\<close>

datatype send_outcome = Returns int | RaisesSigpipe

definition send :: "send_outcome \<Rightarrow> nat \<Rightarrow> error + bool" where
  "send outcome len =
     (case outcome of
        Returns result \<Rightarrow> Inr (0 \<le> result \<and> nat result = len)
      | RaisesSigpipe \<Rightarrow> Inl Sigpipe)"

text \<open>
  \<open>receiveWithLength\<close> calls \<open>recv\<close> until \<open>len\<close> bytes have arrived. \<open>recv k\<close> is what the
  call number \<open>k\<close> delivers: \<open>None\<close> when it returns a negative value, otherwise the bytes
  (none when it returns 0); \<open>recv\<close> never delivers more than it was asked for. The result
  is the bytes stored when the function returns \<open>true\<close> and \<open>None\<close> when it returns \<open>false\<close>.
\<close>

function receiveWithLength_from ::
  "(nat \<Rightarrow> u8 list option) \<Rightarrow> nat \<Rightarrow> nat \<Rightarrow> u8 list \<Rightarrow> u8 list option" where
  "receiveWithLength_from recv len call stored =
     (if length stored < len
      then (case recv call of
              None \<Rightarrow> None
            | Some delivered \<Rightarrow>
                (case take (len - length stored) delivered of
                   [] \<Rightarrow> None
                 | b # bs \<Rightarrow> receiveWithLength_from recv len (Suc call) (stored @ b # bs)))
      else Some stored)"
  by pat_completeness auto
termination
  by (relation "measure (\<lambda>(recv, len, call, stored). len - length stored)") auto

declare receiveWithLength_from.simps [simp del]

definition receiveWithLength :: "(nat \<Rightarrow> u8 list option) \<Rightarrow> nat \<Rightarrow> u8 list option" where
  "receiveWithLength recv len = receiveWithLength_from recv len 0 []"

section \<open>Controller.hpp\<close>

text \<open>
  Modelled from the spec: the record \<open>Message\<close> of \<open>Message.hpp\<close> (a 2-byte magic, the type
  tag and a 4-byte payload) and its factories, which fill the magic with \<open>0x4657\<close>, the
  tag of the event and the payload; a boolean payload is widened to 0 or 1, an event
  without payload carries 0.
\<close>

record Message =
  magic :: u16
  type :: MessageType
  data :: u32

definition soilDryAlert :: Message where
  "soilDryAlert = \<lparr>magic = 0x4657, type = kSoilDryAlert, data = 0\<rparr>"

definition soilWetAlert :: Message where
  "soilWetAlert = \<lparr>magic = 0x4657, type = kSoilWetAlert, data = 0\<rparr>"

definition Message_changeSoilMoisture :: "u32 \<Rightarrow> Message" where
  "Message_changeSoilMoisture level = \<lparr>magic = 0x4657, type = kChangeSoilMoisture, data = level\<rparr>"

definition Message_changeWaterStatus :: "bool \<Rightarrow> Message" where
  "Message_changeWaterStatus hasWater =
     \<lparr>magic = 0x4657, type = kChangeWaterStatus, data = (if hasWater then 1 else 0)\<rparr>"

record Command =
  message :: Message
  index :: SocketIndex

record StreamSocket =
  descriptor :: int

text \<open>
  The controller with what it has done to the outside: its three optional sockets, the
  command queue, the lines printed so far, and every write attempted on a socket (the
  destination and what was handed to \<open>send\<close>), in order.
\<close>

datatype payload = Object Message | Raw "u8 list"

record controller =
  sockets :: "SocketIndex \<Rightarrow> StreamSocket option"
  queue :: "Command LinkedBlockingQueue"
  out :: "line list"
  sent :: "(SocketIndex \<times> payload) list"

definition SocketIndex2String :: "SocketIndex \<Rightarrow> string" where
  "SocketIndex2String i =
     (case i of kMonitor \<Rightarrow> ''Monitor'' | kActuator \<Rightarrow> ''Actuator'' | kGateway \<Rightarrow> ''Gateway'')"

definition changeSoilMoisture :: "u32 \<Rightarrow> Command" where
  "changeSoilMoisture level = \<lparr>message = Message_changeSoilMoisture level, index = kMonitor\<rparr>"

definition changeWaterStatus :: "bool \<Rightarrow> Command" where
  "changeWaterStatus hasWater = \<lparr>message = Message_changeWaterStatus hasWater, index = kActuator\<rparr>"

definition relayMessageToSensorDevice :: "Message \<Rightarrow> Command" where
  "relayMessageToSensorDevice m = \<lparr>message = m, index = kMonitor\<rparr>"

definition relayMessageToActuatorDevice :: "Message \<Rightarrow> Command" where
  "relayMessageToActuatorDevice m = \<lparr>message = m, index = kActuator\<rparr>"

definition sendDrySoilAlertToActuatorDevice :: Command where
  "sendDrySoilAlertToActuatorDevice = \<lparr>message = soilDryAlert, index = kActuator\<rparr>"

definition sendWetSoilAlertToActuatorDevice :: Command where
  "sendWetSoilAlertToActuatorDevice = \<lparr>message = soilWetAlert, index = kActuator\<rparr>"

section \<open>Controller.cpp: the sender and receiver threads\<close>

definition print :: "line list \<Rightarrow> controller \<Rightarrow> controller" where
  "print ls s = s\<lparr>out := out s @ ls\<rparr>"

definition status :: "string \<Rightarrow> arg list \<Rightarrow> controller \<Rightarrow> controller" where
  "status fmt args s = print [Line Status fmt args] s"

definition enqueue :: "Command \<Rightarrow> controller \<Rightarrow> controller" where
  "enqueue c s = s\<lparr>queue := offer c (queue s)\<rparr>"





text \<open>
  The receiver thread. \<open>preamble_ok\<close> is the result of reading the 15 bytes of garbage;
  \<open>incoming\<close> lists the results of the successive reads of one record from the socket,
  \<open>None\<close> for a read that fails and \<open>Some m\<close> for a record whose fields read \<open>m\<close>. The
  thread returns after a failed read and is blocked in the next read when the list is
  used up. \<open>receiver_dispatch\<close> is the body of the loop after a successful read.
\<close>

definition receiveGarbageDataFromFastModels ::
  "bool \<Rightarrow> bool \<Rightarrow> SocketIndex \<Rightarrow> controller \<Rightarrow> error + controller" where
  "receiveGarbageDataFromFastModels debug preamble_ok i s =
     (let name = SocketIndex2String i;
          s1 = print (pinfo debug
                 ''Receiving 15-byte garbage data from the %s device emulated by the ARM FastModels.''
                 [S name]) s
      in case sockets s1 i of
           None \<Rightarrow> Inl (Abort ''The socket to the %s device does not exist.'')
         | Some socket \<Rightarrow>
             if preamble_ok
             then Inr (print (pinfo debug ''Received 15-byte garbage data from the %s device.'' [S name]) s1)
             else Inr (print (pwarning ''The controller may not function properly.'' [])
                        (print (pwarning ''Failed to receive the garbage data from the %s device.'' [S name]) s1)))"

definition receiver_dispatch :: "bool \<Rightarrow> SocketIndex \<Rightarrow> Message \<Rightarrow> controller \<Rightarrow> controller" where
  "receiver_dispatch debug i m s =
     (if magic m \<noteq> 0x4657
      then print (perr debug ''Received an invalid message from the %s device: Magic Mismatched.''
                    [S (SocketIndex2String i)]) s
      else case type m of
          kMoistureUserStack \<Rightarrow>
            status ''Moisture device reports that the shared user stack starts at 0x%08x.'' [X (data m)] s
        | kActuatorUserStack \<Rightarrow>
            status ''Actuator device reports that the shared user stack starts at 0x%08x.'' [X (data m)] s
        | kGateWayUserStack \<Rightarrow>
            status ''Gateway device reports that a thread stack starts at 0x%08x.'' [X (data m)] s
        | kSoilDryAlert \<Rightarrow>
            enqueue (relayMessageToActuatorDevice m)
              (status ''The controller has received a Soil Dry Alert message from the sensor device.'' [] s)
        | kSoilWetAlert \<Rightarrow>
            enqueue (relayMessageToActuatorDevice m)
              (status ''The controller has received a Soil Wet Alert message from the sensor device.'' [] s)
        | kAckSoilWet \<Rightarrow>
            enqueue (relayMessageToSensorDevice m)
              (status ''The controller has received a Ack Soil Wet message from the actuator device.'' [] s)
        | kRunOutOfWaterAlert \<Rightarrow>
            status ''The controller has received a Run Out Of Water Alert message from the actuator device.'' [] s
        | _ \<Rightarrow>
            print (perr debug ''Message type is [%s]. Should never reach at here.'' [T (type m)]) s)"

datatype thread_end = Returned | Blocked

fun receiver_loop ::
  "bool \<Rightarrow> SocketIndex \<Rightarrow> Message option list \<Rightarrow> controller \<Rightarrow> thread_end \<times> controller" where
  "receiver_loop debug i [] s = (Blocked, s)"
| "receiver_loop debug i (None # later) s =
     (Returned, print (perr debug ''Failed to receive the message from the %s device.''
                         [S (SocketIndex2String i)]) s)"
| "receiver_loop debug i (Some m # later) s =
     receiver_loop debug i later (receiver_dispatch debug i m s)"

definition receiver ::
  "bool \<Rightarrow> bool \<Rightarrow> Message option list \<Rightarrow> SocketIndex \<Rightarrow> controller \<Rightarrow>
   error + thread_end \<times> controller" where
  "receiver debug preamble_ok incoming i s =
     (case sockets s i of
        None \<Rightarrow> Inl (Abort ''The socket should be connected.'')
      | Some socket \<Rightarrow>
          (case receiveGarbageDataFromFastModels debug preamble_ok i s of
             Inl e \<Rightarrow> Inl e
           | Inr s1 \<Rightarrow> Inr (receiver_loop debug i incoming s1)))"

text \<open>
  What the table of message types asks a receiver to queue for one record: a Soil Dry
  or Soil Wet Alert goes to the actuator, an Ack Soil Wet to the monitor, every other
  record (a wrong magic included) nowhere. \<open>read_records\<close> are the records a receiver
  reads before its first failed read.
\<close>

definition spec_relay :: "Message \<Rightarrow> Command list" where
  "spec_relay m =
     (if magic m \<noteq> 0x4657 then []
      else if type m \<in> {kSoilDryAlert, kSoilWetAlert} then [\<lparr>message = m, index = kActuator\<rparr>]
      else if type m = kAckSoilWet then [\<lparr>message = m, index = kMonitor\<rparr>]
      else [])"

fun read_records :: "Message option list \<Rightarrow> Message list" where
  "read_records [] = []"
| "read_records (None # later) = []"
| "read_records (Some m # later) = m # read_records later"

section \<open>Controller.cpp: the CoAP request\<close>

text \<open>
  The request is written through a pointer into a 32-byte array. Two things depend on
  the machine and the missing \<open>CoAP.hpp\<close> and are parameters: the byte order in which a
  \<open>uint16_t\<close> and a \<open>uint32_t\<close> are stored, and the declarations of \<open>CoAP.hpp\<close>: the
  constants \<open>kPost\<close>, \<open>kURIHost\<close>, \<open>kURIPort\<close>, \<open>kURIPath\<close> and the bytes that represent a
  \<open>CoAPHeader\<close> with given fields (their number is \<open>sizeof(CoAPHeader)\<close>). \<open>store\<close> writes
  bytes at an offset of the array; a write that does not fit is \<open>OutOfRange\<close>.
\<close>

datatype endian = LittleEndian | BigEndian

definition native16 :: "endian \<Rightarrow> u16 \<Rightarrow> u8 list" where
  "native16 e v =
     (case e of
        LittleEndian \<Rightarrow> [ucast v, ucast (drop_bit 8 v)]
      | BigEndian \<Rightarrow> [ucast (drop_bit 8 v), ucast v])"

definition native32 :: "endian \<Rightarrow> u32 \<Rightarrow> u8 list" where
  "native32 e v =
     (case e of
        LittleEndian \<Rightarrow> [ucast v, ucast (drop_bit 8 v), ucast (drop_bit 16 v), ucast (drop_bit 24 v)]
      | BigEndian \<Rightarrow> [ucast (drop_bit 24 v), ucast (drop_bit 16 v), ucast (drop_bit 8 v), ucast v])"

definition htons :: "endian \<Rightarrow> u16 \<Rightarrow> u16" where
  "htons e v = (case e of LittleEndian \<Rightarrow> push_bit 8 v OR drop_bit 8 v | BigEndian \<Rightarrow> v)"

record CoAPHeader =
  version :: u8
  type' :: u8
  tokenLength :: u8
  code :: u8
  msgID :: u16

record CoAP_hpp =
  kPost :: u8
  kURIHost :: int
  kURIPort :: int
  kURIPath :: int
  representation :: "CoAPHeader \<Rightarrow> u8 list"

definition store :: "u8 list \<Rightarrow> nat \<Rightarrow> u8 list \<Rightarrow> error + u8 list" where
  "store buffer ptr bytes =
     (if ptr + length bytes \<le> length buffer
      then Inr (take ptr buffer @ bytes @ drop (ptr + length bytes) buffer)
      else Inl OutOfRange)"

definition c_str :: "string \<Rightarrow> u8 list" where
  "c_str s = map of_char s"

definition option_byte :: "int \<Rightarrow> nat \<Rightarrow> u8" where
  "option_byte delta len = word_of_int (push_bit 4 delta OR int len)"

definition request_header :: "CoAP_hpp \<Rightarrow> CoAPHeader" where
  "request_header d = \<lparr>version = 0x01, type' = 0x01, tokenLength = 0x00, code = kPost d, msgID = 0x4657\<rparr>"

definition makeCoAPRequestMessage :: "CoAP_hpp \<Rightarrow> endian \<Rightarrow> u8 list \<Rightarrow> u32 \<Rightarrow> error + u8 list" where
  "makeCoAPRequestMessage d e buffer moisture =
     (let ptr = 0;
          header = representation d (request_header d)
      in and_then (store buffer ptr header) (\<lambda>buffer.
     let ptr = ptr + length header;
         address = ''localhost'';
         len = length address
      in and_then (store buffer ptr [option_byte (kURIHost d) len]) (\<lambda>buffer.
         and_then (store buffer (ptr + 1) (c_str address)) (\<lambda>buffer.
     let ptr = ptr + (1 + len)
      in and_then (store buffer ptr [option_byte (kURIPort d - kURIHost d) 2]) (\<lambda>buffer.
         and_then (store buffer (ptr + 1) (native16 e (htons e 10086))) (\<lambda>buffer.
     let ptr = ptr + (1 + 2);
         path = ''/moisture'';
         len = length path
      in and_then (store buffer ptr [option_byte (kURIPath d - kURIPort d) len]) (\<lambda>buffer.
         and_then (store buffer (ptr + 1) (c_str path)) (\<lambda>buffer.
     let ptr = ptr + (1 + len)
      in and_then (store buffer ptr [0xFF]) (\<lambda>buffer.
     let ptr = ptr + 1
      in and_then (store buffer ptr (native32 e moisture)) (\<lambda>buffer.
     let ptr = ptr + 4
      in if ptr = 32 then Inr buffer else Inl (Abort ''Check the request size.'')))))))))))"

text \<open>
  Modelled from the spec: \<open>CoAP.hpp\<close> is not among the sources. The values are the ones of
  the CoAP wire format the spec refers to: version, type and token length packed into the
  first byte, the code in the second, the message ID in the last two; POST is code 0.02;
  the option numbers of URI-Host, URI-Port and URI-Path are 3, 7 and 11.
\<close>

definition rfc7252 :: "endian \<Rightarrow> CoAP_hpp" where
  "rfc7252 e =
     \<lparr>kPost = 0x02, kURIHost = 3, kURIPort = 7, kURIPath = 11,
      representation = (\<lambda>h. [push_bit 6 (version h) OR push_bit 4 (type' h) OR tokenLength h, code h]
                              @ native16 e (msgID h))\<rparr>"

section \<open>Controller.cpp: the gateway round trip\<close>

text \<open>
  One round trip meets the outcome of the \<open>::send\<close> of the 32-byte request and the results
  of the \<open>recv\<close> calls that follow. \<open>sockets[kGateway]->\<close> is applied to the optional
  without a test.
\<close>

record round_trip =
  sending :: send_outcome
  receiving :: "nat \<Rightarrow> u8 list option"

definition sendRecvCoAPMessage ::
  "round_trip \<Rightarrow> u8 list \<Rightarrow> nat \<Rightarrow> controller \<Rightarrow> error + u8 list \<times> controller" where
  "sendRecvCoAPMessage io request len s =
     (case sockets s kGateway of
        None \<Rightarrow> Inl (EmptyOptional kGateway)
      | Some socket \<Rightarrow>
          let s1 = s\<lparr>sent := sent s @ [(kGateway, Raw request)]\<rparr>
          in and_then (send (sending io) 32) (\<lambda>ok.
             if \<not> ok then Inl (Abort ''Failed to send the CoAP request message.'')
             else (case sockets s1 kGateway of
                     None \<Rightarrow> Inl (EmptyOptional kGateway)
                   | Some socket \<Rightarrow>
                       (case receiveWithLength (receiving io) len of
                          None \<Rightarrow> Inl (Abort ''Failed to receive the HTTP message.'')
                        | Some response \<Rightarrow> Inr (response, s1)))))"

text \<open>
  The build (\<open>DEBUG\<close>, byte order, \<open>CoAP.hpp\<close>) and what the outside supplies while the
  controller runs: the results of reading the preamble, of each round trip (numbered by
  the writes attempted before it), the nanoseconds measured for each trial, and the
  indeterminate contents of an uninitialised array.
\<close>

record platform =
  DEBUG :: bool
  byte_order :: endian
  coap :: CoAP_hpp

record io =
  preamble :: "SocketIndex \<Rightarrow> bool"
  exchange :: "nat \<Rightarrow> round_trip"
  clock :: "nat \<Rightarrow> u64"
  stack :: "nat \<Rightarrow> u8"

definition printf :: "string \<Rightarrow> arg list \<Rightarrow> controller \<Rightarrow> controller" where
  "printf fmt args s = print [Line Printed fmt args] s"

definition sendRecvCoAPMessageOnce :: "platform \<Rightarrow> io \<Rightarrow> controller \<Rightarrow> error + controller" where
  "sendRecvCoAPMessageOnce p w s =
     and_then (makeCoAPRequestMessage (coap p) (byte_order p) (replicate 32 0) 100) (\<lambda>request.
     and_then (sendRecvCoAPMessage (exchange w (length (sent s))) request 54 s) (\<lambda>(response, s).
     Inr (printf ''%s'' [B (response @ replicate (64 - length response) 0)]
            (status ''Received a HTTP request message:'' [] s))))"

fun measure_trials ::
  "nat \<Rightarrow> nat \<Rightarrow> (nat \<Rightarrow> u64) \<Rightarrow> ('s \<Rightarrow> error + 's) \<Rightarrow> Result \<Rightarrow> 's \<Rightarrow> error + Result \<times> 's" where
  "measure_trials 0 trial elapsed func result s = Inr (result, s)"
| "measure_trials (Suc remaining) trial elapsed func result s =
     (case func s of
        Inl e \<Rightarrow> Inl e
      | Inr s' \<Rightarrow>
          measure_trials remaining (Suc trial) elapsed func
            (result\<lparr>durations := durations result @ [elapsed trial]\<rparr>) s')"

definition ExecutionTimeMeasurer ::
  "nat \<Rightarrow> (nat \<Rightarrow> u64) \<Rightarrow> ('s \<Rightarrow> error + 's) \<Rightarrow> 's \<Rightarrow> error + Result \<times> 's" where
  "ExecutionTimeMeasurer trials elapsed func s =
     measure_trials trials 0 elapsed func \<lparr>durations = []\<rparr> s"

definition sendRecvCoAPMessages ::
  "platform \<Rightarrow> io \<Rightarrow> nat \<Rightarrow> controller \<Rightarrow> error + Result \<times> controller" where
  "sendRecvCoAPMessages p w trials s =
     and_then (makeCoAPRequestMessage (coap p) (byte_order p) (map (stack w) [0..<32]) 100) (\<lambda>request.
     ExecutionTimeMeasurer trials (clock w)
       (\<lambda>s. and_then (sendRecvCoAPMessage (exchange w (length (sent s))) request 54 s)
               (\<lambda>(response, s). Inr s)) s)"

definition accessor :: "u64 option \<Rightarrow> (u64 \<Rightarrow> error + 'a) \<Rightarrow> error + 'a" where
  "accessor v f = (case v of None \<Rightarrow> Inl OutOfRange | Some x \<Rightarrow> f x)"

definition runGatewayExperiment ::
  "platform \<Rightarrow> io \<Rightarrow> nat \<Rightarrow> nat \<Rightarrow> controller \<Rightarrow> error + controller" where
  "runGatewayExperiment p w trials delayMS s =
     (let s = printf (CHR 0x09 # ''Trials = %zu; Delay = %llu milliseconds.'') [N trials, N delayMS]
                (printf ''Running the gateway experiment...'' [] s)
      in and_then (sendRecvCoAPMessages p w trials s) (\<lambda>(result, s).
         let s = printf ''Execution time:'' [] s
         in accessor (min_time result) (\<lambda>lo.
            let s = printf ''- Min = %llu nanoseconds.'' [N (unat lo)] s
            in accessor (max_time result) (\<lambda>hi.
               let s = printf ''- Max = %llu nanoseconds.'' [N (unat hi)] s
               in accessor (medium result) (\<lambda>med.
                  Inr (printf ''- Std = %.2f nanoseconds.'' [D (durations result)]
                        (printf ''- Avg = %.2f nanoseconds.'' [D (durations result)]
                          (printf ''- Med = %llu nanoseconds.'' [N (unat med)] s))))))))"

section \<open>Controller.cpp: the command loop\<close>

text \<open>
  \<open>std::string\<close> searches return \<open>npos\<close> (\<open>None\<close>) when nothing is found. \<open>split\<close> does not
  return for an empty delimiter (\<open>find\<close> then succeeds at every position): \<open>None\<close>.
\<close>

definition find_first_not_of :: "string \<Rightarrow> string \<Rightarrow> nat option" where
  "find_first_not_of str chars =
     (let n = length (takeWhile (\<lambda>c. c \<in> set chars) str)
      in if n < length str then Some n else None)"

definition find_last_not_of :: "string \<Rightarrow> string \<Rightarrow> nat option" where
  "find_last_not_of str chars =
     (let n = length (takeWhile (\<lambda>c. c \<in> set chars) (rev str))
      in if n < length str then Some (length str - 1 - n) else None)"

definition substr :: "string \<Rightarrow> nat \<Rightarrow> nat \<Rightarrow> string" where
  "substr str pos count = take count (drop pos str)"

definition find_str :: "string \<Rightarrow> string \<Rightarrow> nat \<Rightarrow> nat option" where
  "find_str str sub pos =
     List.find (\<lambda>i. take (length sub) (drop i str) = sub) [pos ..< Suc (length str)]"

definition whitespaces :: string where
  "whitespaces = [CHR '' '', CHR 0x09, CHR 0x0D, CHR 0x0A]"

definition trim :: "string \<Rightarrow> string \<Rightarrow> string" where
  "trim str chars =
     (case find_first_not_of str chars of
        None \<Rightarrow> []
      | Some start \<Rightarrow>
          (case find_last_not_of str chars of
             None \<Rightarrow> drop start str
           | Some end \<Rightarrow> substr str start (end - start + 1)))"

lemma find_Some_member: "List.find P xs = Some x \<Longrightarrow> x \<in> set xs \<and> P x"
  by (induction xs) (auto split: if_splits)

lemma find_str_bounds:
  assumes "find_str str sub pos = Some e" and "sub \<noteq> []"
  shows "pos \<le> e \<and> e + length sub \<le> length str"
proof -
  from assms(1) have "e \<in> set [pos ..< Suc (length str)] \<and> take (length sub) (drop e str) = sub"
    unfolding find_str_def by (rule find_Some_member)
  then have e: "pos \<le> e" "take (length sub) (drop e str) = sub"
    by auto
  from e(2) have "length (take (length sub) (drop e str)) = length sub"
    by (rule arg_cong)
  then have "length sub \<le> length str - e"
    by (simp add: min_def split: if_splits)
  moreover from assms(2) have "0 < length sub"
    by simp
  ultimately show ?thesis
    using e(1) by arith
qed

function split_from :: "string \<Rightarrow> string \<Rightarrow> nat \<Rightarrow> string list \<Rightarrow> string list option" where
  "split_from str delimiter start tokens =
     (if delimiter = [] then None
      else case find_str str delimiter start of
             None \<Rightarrow> Some (tokens @ [drop start str])
           | Some end \<Rightarrow>
               split_from str delimiter (end + length delimiter)
                 (tokens @ [substr str start (end - start)]))"
  by pat_completeness auto
termination
proof (relation "measure (\<lambda>(str, delimiter, start, tokens). Suc (length str) - start)", goal_cases)
  case 1
  show ?case by simp
next
  case (2 str delimiter start tokens e)
  then show ?case
    using find_str_bounds [of str delimiter start e] by (cases delimiter) auto
qed

declare split_from.simps [simp del]

definition split :: "string \<Rightarrow> string \<Rightarrow> string list option" where
  "split str delimiter = split_from str delimiter 0 []"

text \<open>
  \<open>std::stoi\<close> and \<open>std::stoll\<close> in base 10: leading white space is skipped, an optional
  sign is read, then the longest run of digits. With no digit they throw
  \<open>std::invalid_argument\<close>, with a value out of the range of the result type
  \<open>std::out_of_range\<close>; nothing in the controller catches either.
\<close>

definition isspace :: "char \<Rightarrow> bool" where
  "isspace c = (c \<in> set [CHR '' '', CHR 0x09, CHR 0x0A, CHR 0x0B, CHR 0x0C, CHR 0x0D])"

definition isdigit :: "char \<Rightarrow> bool" where
  "isdigit c = (48 \<le> (of_char c :: nat) \<and> (of_char c :: nat) \<le> 57)"

definition strtoll :: "string \<Rightarrow> int option" where
  "strtoll str =
     (let str = dropWhile isspace str;
          negative = (case str of [] \<Rightarrow> False | c # cs \<Rightarrow> c = CHR ''-'');
          str = (case str of [] \<Rightarrow> [] | c # cs \<Rightarrow> if c = CHR ''-'' \<or> c = CHR ''+'' then cs else str);
          digits = takeWhile isdigit str;
          magnitude = foldl (\<lambda>a c. 10 * a + (int (of_char c) - 48)) 0 digits
      in if digits = [] then None else Some (if negative then - magnitude else magnitude))"

definition stoi :: "string \<Rightarrow> error + int" where
  "stoi str =
     (case strtoll str of
        None \<Rightarrow> Inl (Uncaught ''std::invalid_argument'')
      | Some v \<Rightarrow>
          if - (2 ^ 31) \<le> v \<and> v < 2 ^ 31 then Inr v else Inl (Uncaught ''std::out_of_range''))"

definition stoll :: "string \<Rightarrow> error + int" where
  "stoll str =
     (case strtoll str of
        None \<Rightarrow> Inl (Uncaught ''std::invalid_argument'')
      | Some v \<Rightarrow>
          if - (2 ^ 63) \<le> v \<and> v < 2 ^ 63 then Inr v else Inl (Uncaught ''std::out_of_range''))"

text \<open>
  One pass of the loop of \<open>run\<close> for a line read from standard input, and the loop over
  the lines; the loop is blocked in \<open>getline\<close> when the lines are used up and returns
  after \<open>exit\<close>. The threads \<open>run\<close> starts are the functions above. Where a command converts two arguments, the
  first one is converted first.
\<close>

datatype loop_control = Continue | Break

definition run_command ::
  "platform \<Rightarrow> io \<Rightarrow> string \<Rightarrow> controller \<Rightarrow> error + loop_control \<times> controller" where
  "run_command p w input s =
     (let s = printf ''Commander > '' [] s
      in case split (trim input whitespaces) '' '' of
           None \<Rightarrow> Inl OutOfRange
         | Some [] \<Rightarrow> Inl OutOfRange
         | Some (command # others) \<Rightarrow>
             let args = command # others in
             if command = [] then Inr (Continue, s)
             else if command = ''exit'' then Inr (Break, printf ''Goodbye.'' [] s)
             else if command = ''soil'' then
               (if length args \<noteq> 2
                then Inr (Continue,
                       printf ''e.g. `soil 30` to set the moisture level to 30%%.'' []
                         (printf ''Usage: soil level'' [] s))
                else and_then (stoi (args ! 1)) (\<lambda>level.
                       Inr (Continue, enqueue (changeSoilMoisture (word_of_int level)) s)))
             else if command = ''water'' then
               (if length args \<noteq> 2
                then Inr (Continue,
                       printf ''     `water 0` to empty the bottle.'' []
                         (printf ''e.g. `water 1` to fill the bottle with water.'' []
                           (printf ''Usage: water status'' [] s)))
                else and_then (stoi (args ! 1)) (\<lambda>flag.
                       Inr (Continue, enqueue (changeWaterStatus (flag \<noteq> 0)) s)))
             else if command = ''dry'' then Inr (Continue, enqueue sendDrySoilAlertToActuatorDevice s)
             else if command = ''wet'' then Inr (Continue, enqueue sendWetSoilAlertToActuatorDevice s)
             else if command = ''coap'' then
               and_then (sendRecvCoAPMessageOnce p w s) (\<lambda>s. Inr (Continue, s))
             else if command = ''gateway'' then
               (if length args \<noteq> 3
                then Inr (Continue,
                       printf ''      `delay` specify the amount of time in milliseconds between each trial.'' []
                         (printf ''where `trials` specify the number of trials;'' []
                           (printf ''Usage: gateway trials delay'' [] s)))
                else and_then (stoll (args ! 1)) (\<lambda>trials.
                     and_then (stoll (args ! 2)) (\<lambda>delay.
                     and_then (runGatewayExperiment p w (nat (trials mod 2 ^ 64))
                                 (nat (delay mod 2 ^ 64)) s)
                       (\<lambda>s. Inr (Continue, s)))))
             else Inr (Continue, printf ''Unknown command: [%s].'' [S command] s))"

fun command_loop ::
  "platform \<Rightarrow> io \<Rightarrow> string list \<Rightarrow> controller \<Rightarrow> error + thread_end \<times> controller" where
  "command_loop p w [] s = Inr (Blocked, s)"
| "command_loop p w (input # later) s =
     (case run_command p w input s of
        Inl e \<Rightarrow> Inl e
      | Inr (Break, s') \<Rightarrow> Inr (Returned, s')
      | Inr (Continue, s') \<Rightarrow> command_loop p w later s')"

text \<open>
  \<open>run\<close>: the preamble of the gateway, then the loop. The sender thread has been started
  and is never joined or detached, so when the loop is left (\<open>exit\<close>) and \<open>run\<close> returns, the
  destructor of a joinable \<open>std::thread\<close> calls \<open>std::terminate\<close>.
\<close>

definition run :: "platform \<Rightarrow> io \<Rightarrow> string list \<Rightarrow> controller \<Rightarrow> error + thread_end \<times> controller" where
  "run p w inputs s =
     and_then (case sockets s kGateway of
                 Some socket \<Rightarrow> receiveGarbageDataFromFastModels (DEBUG p) (preamble w kGateway) kGateway s
               | None \<Rightarrow> Inr s)
       (\<lambda>s. case command_loop p w inputs s of
               Inl e \<Rightarrow> Inl e
             | Inr (Returned, s') \<Rightarrow> Inl Terminate
             | Inr (Blocked, s') \<Rightarrow> Inr (Blocked, s'))"

section \<open>Example configurations\<close>

text \<open>
  Concrete controllers and a concrete build, used where a statement is evaluated: a
  controller whose gateway slot is empty, one with all three sockets, a little-endian
  \<open>DEBUG\<close> build with the declarations \<open>rfc7252\<close>, and an outside in which every socket
  call succeeds.
\<close>

definition bound_socket :: StreamSocket where
  "bound_socket = \<lparr>descriptor = 3\<rparr>"

definition without_gateway :: controller where
  "without_gateway =
     \<lparr>sockets = (\<lambda>i. case i of kGateway \<Rightarrow> None | _ \<Rightarrow> Some bound_socket),
      queue = [], out = [], sent = []\<rparr>"

definition fully_connected :: controller where
  "fully_connected = \<lparr>sockets = (\<lambda>i. Some bound_socket), queue = [], out = [], sent = []\<rparr>"

definition example_platform :: platform where
  "example_platform = \<lparr>DEBUG = True, byte_order = LittleEndian, coap = rfc7252 LittleEndian\<rparr>"

definition example_io :: io where
  "example_io =
     \<lparr>preamble = (\<lambda>i. True),
      exchange = (\<lambda>n. \<lparr>sending = Returns 32, receiving = (\<lambda>k. Some (replicate 54 0x20))\<rparr>),
      clock = (\<lambda>trial. 1000 + of_nat trial),
      stack = (\<lambda>i. 0xAA)\<rparr>"




definition no_reply :: "nat \<Rightarrow> u8 list option" where
  "no_reply k = None"

section \<open>Properties of the queue\<close>

lemma run_calls_keeps_order:
  "snd (run_calls cs (q, got)) @ fst (run_calls cs (q, got)) = got @ q @ offered cs"
proof (induction cs "(q, got)" arbitrary: q got rule: run_calls.induct)
  case 1
  show ?case by simp
next
  case (2 x cs q got)
  then show ?case by (simp add: offer_def)
next
  case (3 cs q got)
  then show ?case by (cases q) (simp_all add: poll_def)
qed

lemma poll_times_drains: "poll_times (length xs) (xs @ q) = (xs, q)"
  by (induction xs) (simp_all add: poll_def)

lemma foldl_offer: "foldl (\<lambda>q x. offer x q) q xs = q @ xs"
  by (induction xs arbitrary: q) (simp_all add: offer_def)

lemma wait_for_stays_empty:
  "concat arrivals = [] \<Longrightarrow> wait_for [] arrivals = (False, [])"
  by (induction arrivals) (simp_all add: isEmpty_def)

section \<open>Properties of the statistics\<close>

lemma min_element_least: "min_element m xs \<le> m \<and> (\<forall>x \<in> set xs. min_element m xs \<le> x)"
  by (induction xs arbitrary: m) (fastforce)+

lemma max_element_greatest: "m \<le> max_element m xs \<and> (\<forall>x \<in> set xs. x \<le> max_element m xs)"
  by (induction xs arbitrary: m) (fastforce)+

section \<open>Properties of the CoAP request\<close>

lemma native16_port: "native16 e (htons e 10086) = [0x27, 0x66]"
  by (cases e) (simp_all add: native16_def htons_def)

lemma length_native32: "length (native32 e v) = 4"
  by (cases e) (simp_all add: native32_def)

lemma makeCoAPRequestMessage_result:
  assumes h: "length (representation d (request_header d)) = 4"
    and b: "length buffer = 32"
  shows "makeCoAPRequestMessage d e buffer V =
           Inr (representation d (request_header d)
                @ option_byte (kURIHost d) 9 # c_str ''localhost''
                @ option_byte (kURIPort d - kURIHost d) 2 # [0x27, 0x66]
                @ option_byte (kURIPath d - kURIPort d) 9 # c_str ''/moisture''
                @ [0xFF] @ native32 e V)"
  using h b
  by (simp add: makeCoAPRequestMessage_def Let_def store_def and_then_def native16_port
      length_native32 c_str_def eval_nat_numeral)

section \<open>Properties of the controller\<close>

lemma length_request: "length (c_str ''localhost'') = 9" "length (c_str ''/moisture'') = 9"
  by (simp_all add: c_str_def)

lemma split_coap: "split (trim ''coap'' whitespaces) '' '' = Some [''coap'']"
  by code_simp

lemma receiver_dispatch_bad_magic:
  "magic m \<noteq> 0x4657 \<Longrightarrow>
   receiver_dispatch debug i m s =
     print (perr debug ''Received an invalid message from the %s device: Magic Mismatched.''
              [S (SocketIndex2String i)]) s"
  by (simp add: receiver_dispatch_def)

lemma print_fields:
  "queue (print ls s) = queue s" "sockets (print ls s) = sockets s" "sent (print ls s) = sent s"
  "out (print ls s) = out s @ ls"
  by (simp_all add: print_def)

lemma status_fields:
  "queue (status f a s) = queue s" "sockets (status f a s) = sockets s" "sent (status f a s) = sent s"
  by (simp_all add: status_def print_def)

lemma enqueue_fields:
  "queue (enqueue c s) = queue s @ [c]" "sockets (enqueue c s) = sockets s" "sent (enqueue c s) = sent s"
  by (simp_all add: enqueue_def offer_def)

lemma receiver_dispatch_effect:
  "queue (receiver_dispatch debug i m s) = queue s @ spec_relay m
   \<and> sent (receiver_dispatch debug i m s) = sent s
   \<and> sockets (receiver_dispatch debug i m s) = sockets s"
  by (cases "type m")
     (simp_all add: receiver_dispatch_def spec_relay_def print_fields status_fields enqueue_fields
        relayMessageToActuatorDevice_def relayMessageToSensorDevice_def)

lemma receiver_loop_effect:
  "queue (snd (receiver_loop debug i incoming s)) = queue s @ concat (map spec_relay (read_records incoming))
   \<and> sent (snd (receiver_loop debug i incoming s)) = sent s
   \<and> sockets (snd (receiver_loop debug i incoming s)) = sockets s
   \<and> fst (receiver_loop debug i incoming s) = (if None \<in> set incoming then Returned else Blocked)"
proof (induction debug i incoming s rule: receiver_loop.induct)
  case (1 debug i s)
  show ?case by simp
next
  case (2 debug i later s)
  show ?case by (simp add: print_fields)
next
  case (3 debug i m later s)
  then show ?case by (simp add: receiver_dispatch_effect)
qed

lemma receiveGarbage_effect:
  "sockets s i = Some socket \<Longrightarrow>
   \<exists>s1. receiveGarbageDataFromFastModels debug pre i s = Inr s1
        \<and> queue s1 = queue s \<and> sent s1 = sent s \<and> sockets s1 = sockets s"
  by (simp add: receiveGarbageDataFromFastModels_def Let_def print_fields)

lemma receiver_effect:
  assumes "sockets s i = Some socket"
  shows "\<exists>s'. receiver debug pre incoming i s =
                 Inr (if None \<in> set incoming then Returned else Blocked, s')
       \<and> queue s' = queue s @ concat (map spec_relay (read_records incoming))
       \<and> sent s' = sent s \<and> sockets s' = sockets s"
proof -
  from receiveGarbage_effect [OF assms, of debug pre]
  obtain s1 where s1: "receiveGarbageDataFromFastModels debug pre i s = Inr s1"
      "queue s1 = queue s" "sent s1 = sent s" "sockets s1 = sockets s"
    by blast
  let ?r = "receiver_loop debug i incoming s1"
  have "receiver debug pre incoming i s = Inr ?r"
    using assms s1(1) by (simp add: receiver_def)
  moreover have "?r = (fst ?r, snd ?r)"
    by simp
  ultimately have "receiver debug pre incoming i s =
      Inr (if None \<in> set incoming then Returned else Blocked, snd ?r)"
    using receiver_loop_effect [of debug i incoming s1] by simp
  then show ?thesis
    using receiver_loop_effect [of debug i incoming s1] s1(2-4) by auto
qed










lemma no_reply_fails: "receiveWithLength no_reply 54 = None"
  by code_simp

section \<open>Claims about the queue and the statistics\<close>

text \<open>
  C3. Whatever the order in which offers and polls take the mutex, the elements handed
  to the consumer followed by the elements still queued are exactly the offered elements
  in the order of the offers: nothing is lost, nothing is handed over twice, nothing is
  reordered. In particular, after offering \<open>xs\<close> to an empty queue, \<open>length xs\<close> polls
  return \<open>xs\<close> and leave the queue empty.
\<close>

theorem offer_poll_fifo:
  "snd (run_calls cs ([], [])) @ fst (run_calls cs ([], [])) = offered cs
   \<and> poll_times (length xs) (foldl (\<lambda>q x. offer x q) [] xs) = (xs, [])"
proof
  show "snd (run_calls cs ([], [])) @ fst (run_calls cs ([], [])) = offered cs"
    using run_calls_keeps_order [of cs "[]" "[]"] by simp
next
  have "poll_times (length xs) (xs @ []) = (xs, [])"
    by (rule poll_times_drains)
  then show "poll_times (length xs) (foldl (\<lambda>q x. offer x q) [] xs) = (xs, [])"
    by (simp add: foldl_offer)
qed

text \<open>
  C7. If the queue is empty when \<open>pollWithTimeout\<close> is called and nothing arrives during
  any sleep before the deadline, the call returns no element and the queue is unchanged
  (still empty), however many sleeps the duration allows.
\<close>

theorem pollWithTimeout_times_out:
  "concat arrivals = [] \<Longrightarrow> pollWithTimeout arrivals ([] :: 'a list) = (None, [])"
  by (simp add: pollWithTimeout_def wait_for_stays_empty)

theorem pollWithTimeout_times_out_witness:
  "concat [[], [] :: nat list] = [] \<and> pollWithTimeout [[], []] ([] :: nat list) = (None, [])"
  using pollWithTimeout_times_out [of "[[], [] :: nat list]"] by simp

text \<open>
  C8. For a result holding at least one sample, the three accessors are defined and
  \<open>min() \<le> medium() \<le> max()\<close>.
\<close>

theorem min_medium_max_ordered:
  "durations r \<noteq> [] \<Longrightarrow>
   \<exists>lo med hi. min_time r = Some lo \<and> medium r = Some med \<and> max_time r = Some hi
     \<and> lo \<le> med \<and> med \<le> hi"
proof -
  assume "durations r \<noteq> []"
  then obtain x xs where ds: "durations r = x # xs"
    by (cases "durations r") auto
  let ?tmp = "sort (durations r)"
  let ?i = "length (durations r) div 2"
  have i: "?i < length ?tmp"
    by (simp add: ds)
  then have "?tmp ! ?i \<in> set ?tmp"
    by (rule nth_mem)
  moreover have "set ?tmp = set (durations r)"
    by simp
  ultimately have mem: "?tmp ! ?i \<in> set (x # xs)"
    by (simp only: ds)
  have lo: "min_element x xs \<le> ?tmp ! ?i"
    using mem min_element_least [of x xs] by auto
  have hi: "?tmp ! ?i \<le> max_element x xs"
    using mem max_element_greatest [of x xs] by auto
  have "medium r = Some (?tmp ! ?i)"
    using i by (simp add: medium_def Let_def)
  with lo hi show ?thesis
    by (simp add: min_time_def max_time_def ds)
qed

theorem min_medium_max_ordered_witness:
  "durations \<lparr>durations = [30, 10, 20]\<rparr> \<noteq> []
   \<and> min_time \<lparr>durations = [30, 10, 20]\<rparr> = Some 10
   \<and> medium \<lparr>durations = [30, 10, 20]\<rparr> = Some 20
   \<and> max_time \<lparr>durations = [30, 10, 20]\<rparr> = Some 30"
  using min_medium_max_ordered [of "\<lparr>durations = [30, 10, 20]\<rparr>"]
  by (simp add: min_time_def max_time_def medium_def)

section \<open>Claims about the receiver thread\<close>

text \<open>
  C1, as stated, fails: a record with the right magic and a type tag outside the known
  set does not end the process. In a \<open>DEBUG\<close> build the receiver of the monitor socket
  prints one error line for it, then goes on to relay the Soil Dry Alert that follows,
  and is left blocked in the next read.
\<close>

theorem receiver_unlisted_type_counterexample:
  "receiver True True
     [Some \<lparr>magic = 0x4657, type = kUnlisted 99, data = 0\<rparr>, Some soilDryAlert]
     kMonitor without_gateway
   = Inr (Blocked,
       without_gateway
         \<lparr>queue := [\<lparr>message = soilDryAlert, index = kActuator\<rparr>],
          out := [Line DInfo ''Receiving 15-byte garbage data from the %s device emulated by the ARM FastModels.''
                    [S ''Monitor''],
                  Line DInfo ''Received 15-byte garbage data from the %s device.'' [S ''Monitor''],
                  Line Error ''Message type is [%s]. Should never reach at here.'' [T (kUnlisted 99)],
                  Line Status ''The controller has received a Soil Dry Alert message from the sensor device.'' []]\<rparr>)"
  by (simp add: receiver_def without_gateway_def receiveGarbageDataFromFastModels_def
      receiver_dispatch_def soilDryAlert_def print_def status_def enqueue_def offer_def
      pinfo_def perr_def relayMessageToActuatorDevice_def SocketIndex2String_def Let_def)

text \<open>
  C1, amended. For every record whose magic is \<open>0x4657\<close> and whose type tag is none of
  the seven the switch names, the dispatch only calls \<open>perr\<close> (one error line in a \<open>DEBUG\<close>
  build, nothing otherwise), the queue is unchanged, and the receive loop goes on with
  the next read.
\<close>

theorem receiver_unlisted_type_continues:
  assumes "magic m = 0x4657"
    and "type m \<notin> {kMoistureUserStack, kActuatorUserStack, kGateWayUserStack,
                    kSoilDryAlert, kSoilWetAlert, kAckSoilWet, kRunOutOfWaterAlert}"
  shows "receiver_dispatch debug i m s =
           print (perr debug ''Message type is [%s]. Should never reach at here.'' [T (type m)]) s
       \<and> queue (receiver_dispatch debug i m s) = queue s
       \<and> receiver_loop debug i (Some m # later) s =
           receiver_loop debug i later
             (print (perr debug ''Message type is [%s]. Should never reach at here.'' [T (type m)]) s)"
proof -
  have d: "receiver_dispatch debug i m s =
      print (perr debug ''Message type is [%s]. Should never reach at here.'' [T (type m)]) s"
    using assms by (cases "type m") (simp_all add: receiver_dispatch_def)
  then show ?thesis
    by (simp add: print_fields)
qed

theorem receiver_unlisted_type_continues_witness:
  "magic \<lparr>magic = 0x4657, type = kChangeWaterStatus, data = 1\<rparr> = 0x4657
   \<and> receiver_loop True kActuator
        [Some \<lparr>magic = 0x4657, type = kChangeWaterStatus, data = 1\<rparr>, None] fully_connected
      = (Returned, fully_connected
           \<lparr>out := [Line Error ''Message type is [%s]. Should never reach at here.'' [T kChangeWaterStatus],
                    Line Error ''Failed to receive the message from the %s device.'' [S ''Actuator'']]\<rparr>)"
  using receiver_unlisted_type_continues
    [of "\<lparr>magic = 0x4657, type = kChangeWaterStatus, data = 1\<rparr>" True kActuator fully_connected "[None]"]
  by (simp add: fully_connected_def print_def perr_def SocketIndex2String_def)

text \<open>
  C4. For every record with the right magic, the dispatch appends to the queue exactly
  one command with that record for the actuator if it is a Soil Dry or Soil Wet Alert,
  exactly one command with that record for the monitor if it is an Ack Soil Wet, and
  nothing for every other type (the user stack reports and the Run Out Of Water Alert
  among them); it writes to no socket. The receiver thread applies the dispatch to the
  record it reads: a thread on a connected socket that reads the record and then
  whatever follows does not abort, and its queue is the old one, then the commands for
  this record, then those for the records read after it up to the first failed read.
\<close>

theorem receiver_relays_alerts:
  assumes "magic m = 0x4657" and "sockets s i = Some socket"
  shows "queue (receiver_dispatch debug i m s) =
           queue s @
             (if type m \<in> {kSoilDryAlert, kSoilWetAlert} then [\<lparr>message = m, index = kActuator\<rparr>]
              else if type m = kAckSoilWet then [\<lparr>message = m, index = kMonitor\<rparr>]
              else [])
       \<and> sent (receiver_dispatch debug i m s) = sent s
       \<and> receiver_loop debug i (Some m # later) s =
           receiver_loop debug i later (receiver_dispatch debug i m s)
       \<and> (\<exists>s'. receiver debug pre (Some m # later) i s =
                  Inr (if None \<in> set later then Returned else Blocked, s')
              \<and> queue s' =
                  queue s @
                    (if type m \<in> {kSoilDryAlert, kSoilWetAlert} then [\<lparr>message = m, index = kActuator\<rparr>]
                     else if type m = kAckSoilWet then [\<lparr>message = m, index = kMonitor\<rparr>]
                     else [])
                    @ concat (map spec_relay (read_records later))
              \<and> sent s' = sent s)"
proof (intro conjI)
  have r: "spec_relay m =
      (if type m \<in> {kSoilDryAlert, kSoilWetAlert} then [\<lparr>message = m, index = kActuator\<rparr>]
       else if type m = kAckSoilWet then [\<lparr>message = m, index = kMonitor\<rparr>]
       else [])"
    using assms(1) by (simp add: spec_relay_def)
  show "queue (receiver_dispatch debug i m s) =
      queue s @
        (if type m \<in> {kSoilDryAlert, kSoilWetAlert} then [\<lparr>message = m, index = kActuator\<rparr>]
         else if type m = kAckSoilWet then [\<lparr>message = m, index = kMonitor\<rparr>]
         else [])"
    using receiver_dispatch_effect [of debug i m s] r by simp
  show "sent (receiver_dispatch debug i m s) = sent s"
    using receiver_dispatch_effect [of debug i m s] by simp
  show "receiver_loop debug i (Some m # later) s =
      receiver_loop debug i later (receiver_dispatch debug i m s)"
    by simp
  from receiver_effect [OF assms(2), of debug pre "Some m # later"]
  obtain s' where s': "receiver debug pre (Some m # later) i s =
        Inr (if None \<in> set (Some m # later) then Returned else Blocked, s')"
      "queue s' = queue s @ concat (map spec_relay (read_records (Some m # later)))"
      "sent s' = sent s"
    by blast
  have "receiver debug pre (Some m # later) i s =
      Inr (if None \<in> set later then Returned else Blocked, s')"
    using s'(1) by simp
  moreover have "queue s' =
      queue s @
        (if type m \<in> {kSoilDryAlert, kSoilWetAlert} then [\<lparr>message = m, index = kActuator\<rparr>]
         else if type m = kAckSoilWet then [\<lparr>message = m, index = kMonitor\<rparr>]
         else [])
        @ concat (map spec_relay (read_records later))"
    using s'(2) r by simp
  ultimately show "\<exists>s'. receiver debug pre (Some m # later) i s =
        Inr (if None \<in> set later then Returned else Blocked, s')
      \<and> queue s' =
          queue s @
            (if type m \<in> {kSoilDryAlert, kSoilWetAlert} then [\<lparr>message = m, index = kActuator\<rparr>]
             else if type m = kAckSoilWet then [\<lparr>message = m, index = kMonitor\<rparr>]
             else [])
            @ concat (map spec_relay (read_records later))
      \<and> sent s' = sent s"
    using s'(3) by blast
qed

theorem receiver_relays_alerts_witness:
  "magic soilDryAlert = 0x4657
   \<and> sockets without_gateway kMonitor = Some bound_socket
   \<and> queue (receiver_dispatch False kMonitor soilDryAlert without_gateway)
       = [\<lparr>message = soilDryAlert, index = kActuator\<rparr>]
   \<and> receiver False True
        [Some soilDryAlert, Some \<lparr>magic = 0x4657, type = kAckSoilWet, data = 0\<rparr>,
         Some \<lparr>magic = 0x4657, type = kRunOutOfWaterAlert, data = 0\<rparr>]
        kMonitor without_gateway
      = Inr (Blocked,
          without_gateway
            \<lparr>queue := [\<lparr>message = soilDryAlert, index = kActuator\<rparr>,
                       \<lparr>message = \<lparr>magic = 0x4657, type = kAckSoilWet, data = 0\<rparr>, index = kMonitor\<rparr>],
             out := [Line Status ''The controller has received a Soil Dry Alert message from the sensor device.'' [],
                     Line Status ''The controller has received a Ack Soil Wet message from the actuator device.'' [],
                     Line Status ''The controller has received a Run Out Of Water Alert message from the actuator device.'' []]\<rparr>)"
  using receiver_relays_alerts [of soilDryAlert without_gateway kMonitor bound_socket False
      "[Some \<lparr>magic = 0x4657, type = kAckSoilWet, data = 0\<rparr>,
        Some \<lparr>magic = 0x4657, type = kRunOutOfWaterAlert, data = 0\<rparr>]" True]
  by (simp add: soilDryAlert_def without_gateway_def receiver_def
      receiveGarbageDataFromFastModels_def receiver_dispatch_def print_def status_def
      enqueue_def offer_def pinfo_def relayMessageToActuatorDevice_def
      relayMessageToSensorDevice_def Let_def)

text \<open>
  C5. For every record whose magic is not \<open>0x4657\<close>, whatever its type tag, the dispatch
  only calls \<open>perr\<close> with the magic-mismatch message: no command is queued, the sockets
  are as before, nothing is written, and the receive loop goes on with the next read.
\<close>

theorem receiver_rejects_bad_magic:
  assumes "magic m \<noteq> 0x4657"
  shows "receiver_dispatch debug i m s =
           print (perr debug ''Received an invalid message from the %s device: Magic Mismatched.''
                    [S (SocketIndex2String i)]) s
       \<and> queue (receiver_dispatch debug i m s) = queue s
       \<and> sockets (receiver_dispatch debug i m s) = sockets s
       \<and> sent (receiver_dispatch debug i m s) = sent s
       \<and> receiver_loop debug i (Some m # later) s =
           receiver_loop debug i later
             (print (perr debug ''Received an invalid message from the %s device: Magic Mismatched.''
                       [S (SocketIndex2String i)]) s)"
  using assms by (simp add: receiver_dispatch_bad_magic print_fields)

theorem receiver_rejects_bad_magic_witness:
  "magic \<lparr>magic = 0x1234, type = kSoilDryAlert, data = 0\<rparr> \<noteq> 0x4657
   \<and> receiver_loop False kMonitor
        [Some \<lparr>magic = 0x1234, type = kSoilDryAlert, data = 0\<rparr>, Some soilWetAlert] without_gateway
      = (Blocked, without_gateway
           \<lparr>queue := [\<lparr>message = soilWetAlert, index = kActuator\<rparr>],
            out := [Line Status ''The controller has received a Soil Wet Alert message from the sensor device.'' []]\<rparr>)"
  using receiver_rejects_bad_magic
    [of "\<lparr>magic = 0x1234, type = kSoilDryAlert, data = 0\<rparr>" False kMonitor without_gateway "[Some soilWetAlert]"]
  by (simp add: without_gateway_def print_def perr_def receiver_dispatch_def soilWetAlert_def
      status_def enqueue_def offer_def relayMessageToActuatorDevice_def)

section \<open>Claims about the sender thread\<close>




section \<open>Claims about the CoAP request and the gateway round trip\<close>

text \<open>
  C2. For every moisture value, when \<open>CoAPHeader\<close> takes 4 bytes, the 32-byte array holds
  on return, in this order: the 4 bytes of the header, the URI-Host option byte and
  \<open>localhost\<close>, the URI-Port option byte and 10086 in network byte order (\<open>0x27 0x66\<close>), the
  URI-Path option byte and \<open>/moisture\<close>, \<open>0xFF\<close>, and the moisture value in native byte
  order. These are 32 bytes, none left from the array's earlier contents; the last 4
  are the value and the first 2 (indeed the first 4) are those of the fixed header.
\<close>

theorem makeCoAPRequestMessage_layout:
  assumes "length (representation d (request_header d)) = 4" and "length buffer = 32"
  shows "\<exists>request. makeCoAPRequestMessage d e buffer V = Inr request
       \<and> request = representation d (request_header d)
                   @ option_byte (kURIHost d) 9 # c_str ''localhost''
                   @ option_byte (kURIPort d - kURIHost d) 2 # [0x27, 0x66]
                   @ option_byte (kURIPath d - kURIPort d) 9 # c_str ''/moisture''
                   @ [0xFF] @ native32 e V
       \<and> length request = 32
       \<and> drop 28 request = native32 e V
       \<and> take 2 request = take 2 (representation d (request_header d))
       \<and> take 4 request = representation d (request_header d)"
  using assms
  by (simp add: makeCoAPRequestMessage_result length_native32 length_request)

theorem makeCoAPRequestMessage_layout_witness:
  "length (representation (rfc7252 LittleEndian) (request_header (rfc7252 LittleEndian))) = 4
   \<and> length (replicate 32 (0 :: u8)) = 32
   \<and> makeCoAPRequestMessage (rfc7252 LittleEndian) LittleEndian (replicate 32 0) 100 =
       Inr [0x50, 0x02, 0x57, 0x46,
            0x39, 0x6C, 0x6F, 0x63, 0x61, 0x6C, 0x68, 0x6F, 0x73, 0x74,
            0x42, 0x27, 0x66,
            0x49, 0x2F, 0x6D, 0x6F, 0x69, 0x73, 0x74, 0x75, 0x72, 0x65,
            0xFF, 100, 0, 0, 0]"
  using makeCoAPRequestMessage_layout [of "rfc7252 LittleEndian" "replicate 32 0" LittleEndian 100]
  by (simp add: rfc7252_def request_header_def native16_def native32_def option_byte_def c_str_def)




text \<open>
  C10. The round trip ends in the access to an empty optional exactly when the gateway
  slot is empty: nothing tests the slot first, and with a socket present that failure
  cannot occur. The command \<open>coap\<close> of the interactive loop reaches the access when the
  gateway slot is empty (the request itself is built without failure when \<open>CoAPHeader\<close>
  takes 4 bytes).
\<close>

theorem sendRecvCoAPMessage_unchecked_gateway:
  "((\<exists>i. sendRecvCoAPMessage rt request len s = Inl (EmptyOptional i)) = (sockets s kGateway = None))
   \<and> (sockets s kGateway = None \<and> length (representation (coap p) (request_header (coap p))) = 4 \<longrightarrow>
        run_command p w ''coap'' s = Inl (EmptyOptional kGateway)
        \<and> run p w (''coap'' # later) s = Inl (EmptyOptional kGateway))"
proof (intro conjI impI)
  show "(\<exists>i. sendRecvCoAPMessage rt request len s = Inl (EmptyOptional i)) = (sockets s kGateway = None)"
    by (auto simp add: sendRecvCoAPMessage_def Let_def and_then_def send_def
        split: option.splits send_outcome.splits)
next
  assume a: "sockets s kGateway = None \<and> length (representation (coap p) (request_header (coap p))) = 4"
  then have m: "makeCoAPRequestMessage (coap p) (byte_order p) (replicate 32 0) 100 =
      Inr (representation (coap p) (request_header (coap p))
           @ option_byte (kURIHost (coap p)) 9 # c_str ''localhost''
           @ option_byte (kURIPort (coap p) - kURIHost (coap p)) 2 # [0x27, 0x66]
           @ option_byte (kURIPath (coap p) - kURIPort (coap p)) 9 # c_str ''/moisture''
           @ [0xFF] @ native32 (byte_order p) 100)"
    by (simp add: makeCoAPRequestMessage_result)
  have once: "sendRecvCoAPMessageOnce p w s' = Inl (EmptyOptional kGateway)"
    if "sockets s' kGateway = None" for s'
    using that by (simp add: sendRecvCoAPMessageOnce_def m and_then_def sendRecvCoAPMessage_def)
  show c: "run_command p w ''coap'' s = Inl (EmptyOptional kGateway)"
    using a by (simp add: run_command_def split_coap Let_def once printf_def print_fields and_then_def)
  show "run p w (''coap'' # later) s = Inl (EmptyOptional kGateway)"
    using a c by (simp add: run_def and_then_def)
qed

theorem sendRecvCoAPMessage_unchecked_gateway_witness:
  "sockets without_gateway kGateway = None
   \<and> length (representation (coap example_platform) (request_header (coap example_platform))) = 4
   \<and> run example_platform example_io [''coap''] without_gateway = Inl (EmptyOptional kGateway)
   \<and> sendRecvCoAPMessage \<lparr>sending = Returns 32, receiving = (\<lambda>k. None)\<rparr> (replicate 32 0) 54 without_gateway
       = Inl (EmptyOptional kGateway)"
  using sendRecvCoAPMessage_unchecked_gateway
      [of "\<lparr>sending = Returns 32, receiving = (\<lambda>k. None)\<rparr>" "replicate 32 0" 54 without_gateway
          example_platform example_io "[]"]
  by (simp add: without_gateway_def example_platform_def rfc7252_def native16_def
      sendRecvCoAPMessage_def)

end
